theory Spec2Isabelle
  imports Complex_Main "HOL-Library.Sublist" "HOL-Library.Multiset"
begin

section \<open>Shared data\<close>

text \<open>
  Python \<open>bytes\<close> are lists of 8-bit characters.  Every exception the modelled code can
  raise or let through is a value of \<open>error\<close>; a call that may raise returns
  \<open>error + 'a\<close> with \<open>Inl\<close> for the exception.  The arguments of
  \<open>MorePassesRequired\<close> are \<open>valid_count\<close> and \<open>required_count\<close>, in this order.
\<close>

type_synonym bytes = string

datatype error =
    MorePassesRequired int int
  | ValueError
  | UnicodeDecodeError
  | CollaboratorError string

section \<open>The storage server wrapper (\<open>_storage_server.py\<close>)\<close>

subsection \<open>Collaborators\<close>

text \<open>
  The \<open>privacypass\<close> library is external.  Its objects (preimages, signatures, unblinded
  tokens, verification keys, the signing key) are represented by their byte encodings and
  each of its operations may raise.  \<open>encode_utf8\<close> stands for \<open>message.encode("utf-8")\<close>
  on the unicode binding message, whose type is left open.
\<close>

record 'm privacypass =
  TokenPreimage_decode_base64 :: "bytes \<Rightarrow> error + bytes"
  VerificationSignature_decode_base64 :: "bytes \<Rightarrow> error + bytes"
  rederive_unblinded_token :: "bytes \<Rightarrow> bytes \<Rightarrow> error + bytes"
  derive_verification_key_sha512 :: "bytes \<Rightarrow> error + bytes"
  invalid_sha512 :: "bytes \<Rightarrow> bytes \<Rightarrow> bytes \<Rightarrow> error + bool"
  encode_utf8 :: "'m \<Rightarrow> error + bytes"

text \<open>
  \<open>storage_common.py\<close> is not among the sources.  Its constant \<open>BYTES_PER_PASS\<close> and its
  four binding-message functions are taken as parameters.
\<close>

record 'm storage_common =
  BYTES_PER_PASS :: int
  allocate_buckets_message :: "bytes \<Rightarrow> 'm"
  add_lease_message :: "bytes \<Rightarrow> 'm"
  renew_lease_message :: "bytes \<Rightarrow> 'm"
  slot_testv_and_readv_and_writev_message :: "bytes \<Rightarrow> 'm"

datatype LeaseInfo = LeaseInfo (get_expiration_time: real)

type_synonym test_vector = "(int \<times> int \<times> bytes \<times> bytes) list"
type_synonym data_vector = "(int \<times> bytes) list"
type_synonym tw_vectors = "(int \<times> (test_vector \<times> data_vector \<times> int option)) list"
type_synonym r_vector = "(int \<times> int) list"
type_synonym secrets = "bytes \<times> bytes \<times> bytes"

text \<open>
  The wrapped \<open>RIStorageServer\<close> is external too.  A method call on it is a
  \<open>storage_call\<close> value handed to \<open>invoke\<close>, which threads the storage state and may
  raise; \<open>get_slot_leases\<close> reads the leases of a storage index.  The last argument of
  \<open>Slot_testv_and_readv_and_writev\<close> is \<open>renew_leases\<close>.
\<close>

datatype storage_call =
    Allocate_buckets bytes bytes bytes "int set" int nat
  | Add_lease bytes "bytes list"
  | Renew_lease bytes "bytes list"
  | Slot_testv_and_readv_and_writev bytes secrets tw_vectors r_vector bool

record ('st, 'r) RIStorageServer =
  get_slot_leases :: "'st \<Rightarrow> bytes \<Rightarrow> LeaseInfo list"
  invoke :: "storage_call \<Rightarrow> 'st \<Rightarrow> (error + 'r) \<times> 'st"

text \<open>
  The attributes of \<open>ZKAPAuthorizerStorageServer\<close>; \<open>clock\<close> is what
  \<open>self._clock.seconds()\<close> returns during the call.
\<close>

record ('st, 'r) ZKAPAuthorizerStorageServer =
  original :: "('st, 'r) RIStorageServer"
  signing_key :: bytes
  clock :: real

subsection \<open>Validating passes\<close>

text \<open>\<open>bytes.split(sep)\<close> with an explicit one-byte separator: empty pieces are kept.\<close>

fun split_bytes :: "char \<Rightarrow> bytes \<Rightarrow> bytes list" where
  "split_bytes sep [] = [[]]"
| "split_bytes sep (c # cs) =
     (if c = sep then [] # split_bytes sep cs
      else (case split_bytes sep cs of
              [] \<Rightarrow> [[c]]
            | w # ws \<Rightarrow> (c # w) # ws))"

text \<open>
  The body of the \<open>try\<close> block of \<open>_is_invalid_pass\<close>.  Unpacking the split into two
  names raises \<open>ValueError\<close> unless there are exactly two pieces.
\<close>

definition check_pass :: "'m privacypass \<Rightarrow> bytes \<Rightarrow> 'm \<Rightarrow> bytes \<Rightarrow> error + bool" where
  "check_pass lib key message pass =
     (case split_bytes (CHR '' '') pass of
        [preimage_base64, signature_base64] \<Rightarrow>
          (case TokenPreimage_decode_base64 lib preimage_base64 of
             Inl e \<Rightarrow> Inl e
           | Inr preimage \<Rightarrow>
          (case VerificationSignature_decode_base64 lib signature_base64 of
             Inl e \<Rightarrow> Inl e
           | Inr proposed_signature \<Rightarrow>
          (case rederive_unblinded_token lib key preimage of
             Inl e \<Rightarrow> Inl e
           | Inr unblinded_token \<Rightarrow>
          (case derive_verification_key_sha512 lib unblinded_token of
             Inl e \<Rightarrow> Inl e
           | Inr verification_key \<Rightarrow>
          (case encode_utf8 lib message of
             Inl e \<Rightarrow> Inl e
           | Inr encoded \<Rightarrow>
               invalid_sha512 lib verification_key proposed_signature encoded)))))
      | _ \<Rightarrow> Inl ValueError)"

text \<open>\<open>_is_invalid_pass\<close>: \<open>except Exception: return True\<close>.\<close>

definition is_invalid_pass :: "'m privacypass \<Rightarrow> bytes \<Rightarrow> 'm \<Rightarrow> bytes \<Rightarrow> bool" where
  "is_invalid_pass lib key message pass =
     (case check_pass lib key message pass of
        Inl e \<Rightarrow> True
      | Inr invalid_pass \<Rightarrow> invalid_pass)"

text \<open>\<open>_validate_passes\<close>.\<close>

definition validate_passes :: "'m privacypass \<Rightarrow> bytes \<Rightarrow> 'm \<Rightarrow> bytes list \<Rightarrow> bytes list" where
  "validate_passes lib key message passes =
     [pass \<leftarrow> passes. \<not> is_invalid_pass lib key message pass]"

subsection \<open>Pass accounting\<close>

text \<open>
  Modelled from the spec: \<open>storage_common.required_passes\<close> is not among the sources.
  The spec's \<open>required_for_bytes(bytes_per_pass, size)\<close> is
  \<open>ceil(max(size,0) / bytes_per_pass)\<close>, and its
  \<open>required_for_allocation(bytes_per_pass, sharenums, allocated_size)\<close>, the function the
  source calls \<open>required_passes\<close>, is \<open>required_for_bytes(bytes_per_pass, allocated_size)\<close>.
\<close>

definition required_for_bytes :: "int \<Rightarrow> int \<Rightarrow> int" where
  "required_for_bytes bytes_per_pass sz =
     \<lceil>real_of_int (max sz 0) / real_of_int bytes_per_pass\<rceil>"

definition required_passes :: "int \<Rightarrow> int set \<Rightarrow> int \<Rightarrow> int" where
  "required_passes bytes_per_pass sharenums allocated_size =
     required_for_bytes bytes_per_pass allocated_size"

definition get_sharenums :: "tw_vectors \<Rightarrow> int set" where
  "get_sharenums tw =
     set [sharenum. (sharenum, (test, data, new_length)) \<leftarrow> tw, data \<noteq> []]"

text \<open>
  Modelled from the spec: \<open>storage_common.has_writes\<close> is not among the sources.  The
  spec: the write vectors contain an actual write when \<open>shares_written\<close> is non-empty.
\<close>

definition has_writes :: "tw_vectors \<Rightarrow> bool" where
  "has_writes tw = (get_sharenums tw \<noteq> {})"

text \<open>Python's \<open>max\<close> of a sequence raises \<open>ValueError\<close> on an empty one.\<close>

fun py_max :: "int list \<Rightarrow> error + int" where
  "py_max [] = Inl ValueError"
| "py_max (x # xs) = Inr (fold max xs x)"

text \<open>Evaluating a list of computations in order; the first exception ends it.\<close>

fun collect :: "(error + 'a) list \<Rightarrow> error + 'a list" where
  "collect [] = Inr []"
| "collect (Inl e # rs) = Inl e"
| "collect (Inr x # rs) = (case collect rs of Inl e \<Rightarrow> Inl e | Inr xs \<Rightarrow> Inr (x # xs))"

definition get_allocated_size :: "tw_vectors \<Rightarrow> error + int" where
  "get_allocated_size tw =
     (case collect [py_max [offset + int (length s). (offset, s) \<leftarrow> data].
                     (sharenum, (test, data, new_length)) \<leftarrow> tw, data \<noteq> []] of
        Inl e \<Rightarrow> Inl e
      | Inr sizes \<Rightarrow> py_max sizes)"

definition has_active_lease :: "('st, 'r) RIStorageServer \<Rightarrow> 'st \<Rightarrow> bytes \<Rightarrow> real \<Rightarrow> bool" where
  "has_active_lease storage_server st storage_index now =
     list_ex (\<lambda>lease. get_expiration_time lease > now)
       (get_slot_leases storage_server st storage_index)"

definition check_pass_quantity_for_write :: "int \<Rightarrow> int \<Rightarrow> int set \<Rightarrow> int \<Rightarrow> error + unit" where
  "check_pass_quantity_for_write bytes_per_pass valid_count sharenums allocated_size =
     (let required_pass_count = required_passes bytes_per_pass sharenums allocated_size
      in if valid_count < required_pass_count
         then Inl (MorePassesRequired valid_count required_pass_count)
         else Inr ())"

definition check_pass_quantity_for_mutable_write :: "int \<Rightarrow> int \<Rightarrow> tw_vectors \<Rightarrow> error + unit" where
  "check_pass_quantity_for_mutable_write bytes_per_pass valid_count tw =
     (let sharenums = get_sharenums tw
      in case get_allocated_size tw of
           Inl e \<Rightarrow> Inl e
         | Inr allocated_size \<Rightarrow>
             check_pass_quantity_for_write bytes_per_pass valid_count sharenums allocated_size)"

subsection \<open>The remote methods\<close>

definition remote_allocate_buckets ::
  "'m privacypass \<Rightarrow> 'm storage_common \<Rightarrow> ('st, 'r) ZKAPAuthorizerStorageServer \<Rightarrow>
   bytes list \<Rightarrow> bytes \<Rightarrow> bytes \<Rightarrow> bytes \<Rightarrow> int set \<Rightarrow> int \<Rightarrow> nat \<Rightarrow>
   'st \<Rightarrow> (error + 'r) \<times> 'st" where
  "remote_allocate_buckets lib sc self passes storage_index renew_secret cancel_secret
       sharenums allocated_size canary st =
     (let valid_passes = validate_passes lib (signing_key self)
                           (allocate_buckets_message sc storage_index) passes
      in case check_pass_quantity_for_write (BYTES_PER_PASS sc)
                (int (length valid_passes)) sharenums allocated_size of
           Inl e \<Rightarrow> (Inl e, st)
         | Inr u \<Rightarrow>
             invoke (original self)
               (Allocate_buckets storage_index renew_secret cancel_secret
                  sharenums allocated_size canary) st)"

definition remote_add_lease ::
  "'m privacypass \<Rightarrow> 'm storage_common \<Rightarrow> ('st, 'r) ZKAPAuthorizerStorageServer \<Rightarrow>
   bytes list \<Rightarrow> bytes \<Rightarrow> bytes list \<Rightarrow> 'st \<Rightarrow> (error + 'r) \<times> 'st" where
  "remote_add_lease lib sc self passes storage_index a st =
     (let ignored = validate_passes lib (signing_key self)
                      (add_lease_message sc storage_index) passes
      in invoke (original self) (Add_lease storage_index a) st)"

definition remote_renew_lease ::
  "'m privacypass \<Rightarrow> 'm storage_common \<Rightarrow> ('st, 'r) ZKAPAuthorizerStorageServer \<Rightarrow>
   bytes list \<Rightarrow> bytes \<Rightarrow> bytes list \<Rightarrow> 'st \<Rightarrow> (error + 'r) \<times> 'st" where
  "remote_renew_lease lib sc self passes storage_index a st =
     (let ignored = validate_passes lib (signing_key self)
                      (renew_lease_message sc storage_index) passes
      in invoke (original self) (Renew_lease storage_index a) st)"

text \<open>
  \<open>authorize_slot_write\<close> is the part of \<open>remote_slot_testv_and_readv_and_writev\<close> before
  the call of the wrapped server: it raises or yields the value of \<open>renew_leases\<close>.
\<close>

definition authorize_slot_write ::
  "'m privacypass \<Rightarrow> 'm storage_common \<Rightarrow> ('st, 'r) ZKAPAuthorizerStorageServer \<Rightarrow>
   bytes list \<Rightarrow> bytes \<Rightarrow> tw_vectors \<Rightarrow> 'st \<Rightarrow> error + bool" where
  "authorize_slot_write lib sc self passes storage_index tw st =
     (if has_writes tw then
        if \<not> has_active_lease (original self) st storage_index (clock self) then
          (let valid_passes = validate_passes lib (signing_key self)
                 (slot_testv_and_readv_and_writev_message sc storage_index) passes
           in case check_pass_quantity_for_mutable_write (BYTES_PER_PASS sc)
                     (int (length valid_passes)) tw of
                Inl e \<Rightarrow> Inl e
              | Inr u \<Rightarrow> Inr True)
        else Inr False
      else Inr False)"

definition remote_slot_testv_and_readv_and_writev ::
  "'m privacypass \<Rightarrow> 'm storage_common \<Rightarrow> ('st, 'r) ZKAPAuthorizerStorageServer \<Rightarrow>
   bytes list \<Rightarrow> bytes \<Rightarrow> secrets \<Rightarrow> tw_vectors \<Rightarrow> r_vector \<Rightarrow>
   'st \<Rightarrow> (error + 'r) \<times> 'st" where
  "remote_slot_testv_and_readv_and_writev lib sc self passes storage_index secrets tw
       r_vector st =
     (case authorize_slot_write lib sc self passes storage_index tw st of
        Inl e \<Rightarrow> (Inl e, st)
      | Inr renew_leases \<Rightarrow>
          invoke (original self)
            (Slot_testv_and_readv_and_writev storage_index secrets tw r_vector renew_leases)
            st)"

section \<open>Spending passes (\<open>spending.py\<close>)\<close>

subsection \<open>Collaborators\<close>

text \<open>
  The \<open>eliot\<close> message types of \<open>eliot.py\<close> that \<open>spending.py\<close> logs.  The \<open>message\<close>
  field of \<open>GET_PASSES\<close> is a \<open>str\<close>, a list of code points.
\<close>

datatype eliot_message =
    GET_PASSES "nat list" int
  | SPENT_PASSES int
  | INVALID_PASSES string int
  | RESET_PASSES int

text \<open>
  \<open>bytes.decode("utf-8")\<close> with strict error handling: \<open>None\<close> is \<open>UnicodeDecodeError\<close>.
  Overlong forms, surrogates and code points above \<open>0x10FFFF\<close> are rejected.
\<close>

definition continuation :: "nat \<Rightarrow> bool" where
  "continuation b = (0x80 \<le> b \<and> b \<le> 0xBF)"

fun utf8_code_points :: "nat list \<Rightarrow> nat list option" where
  "utf8_code_points [] = Some []"
| "utf8_code_points (b0 # bs) =
     (if b0 < 0x80 then map_option ((#) b0) (utf8_code_points bs)
      else if 0xC2 \<le> b0 \<and> b0 \<le> 0xDF then
        (case bs of
           b1 # r \<Rightarrow>
             if continuation b1
             then map_option ((#) ((b0 - 0xC0) * 64 + (b1 - 0x80))) (utf8_code_points r)
             else None
         | _ \<Rightarrow> None)
      else if 0xE0 \<le> b0 \<and> b0 \<le> 0xEF then
        (case bs of
           b1 # b2 # r \<Rightarrow>
             if continuation b1 \<and> continuation b2
                \<and> (if b0 = 0xE0 then 0xA0 \<le> b1 else True)
                \<and> (if b0 = 0xED then b1 \<le> 0x9F else True)
             then map_option
                    ((#) ((b0 - 0xE0) * 4096 + (b1 - 0x80) * 64 + (b2 - 0x80)))
                    (utf8_code_points r)
             else None
         | _ \<Rightarrow> None)
      else if 0xF0 \<le> b0 \<and> b0 \<le> 0xF4 then
        (case bs of
           b1 # b2 # b3 # r \<Rightarrow>
             if continuation b1 \<and> continuation b2 \<and> continuation b3
                \<and> (if b0 = 0xF0 then 0x90 \<le> b1 else True)
                \<and> (if b0 = 0xF4 then b1 \<le> 0x8F else True)
             then map_option
                    ((#) ((b0 - 0xF0) * 262144 + (b1 - 0x80) * 4096
                          + (b2 - 0x80) * 64 + (b3 - 0x80)))
                    (utf8_code_points r)
             else None
         | _ \<Rightarrow> None)
      else None)"

definition utf8_decode :: "bytes \<Rightarrow> nat list option" where
  "utf8_decode b = utf8_code_points (map of_char b)"

text \<open>
  The attributes of \<open>SpendingController\<close> are callables injected by the caller (those of
  a \<open>VoucherStore\<close> in \<open>for_store\<close>).  The four inventory operations thread the
  inventory state \<open>'s\<close> and may raise; \<open>tokens_to_passes\<close> is a conversion that may
  raise.  Unblinded tokens \<open>'t\<close> and passes \<open>'p\<close> are opaque.
\<close>

record ('s, 't, 'p) SpendingController =
  get_unblinded_tokens :: "int \<Rightarrow> 's \<Rightarrow> (error + 't list) \<times> 's"
  discard_unblinded_tokens :: "'t list \<Rightarrow> 's \<Rightarrow> (error + unit) \<times> 's"
  invalidate_unblinded_tokens :: "string \<Rightarrow> 't list \<Rightarrow> 's \<Rightarrow> (error + unit) \<times> 's"
  reset_unblinded_tokens :: "'t list \<Rightarrow> 's \<Rightarrow> (error + unit) \<times> 's"
  tokens_to_passes :: "bytes \<Rightarrow> 't list \<Rightarrow> error + 'p list"

text \<open>
  The attributes \<open>_message\<close>, \<open>_factory\<close> and \<open>_tokens\<close> of \<open>PassGroup\<close>.  The factory
  is a \<open>SpendingController\<close>, the one \<open>IPassFactory\<close> of the sources.
\<close>

record ('s, 't, 'p) PassGroup =
  pg_message :: bytes
  pg_factory :: "('s, 't, 'p) SpendingController"
  pg_tokens :: "('t \<times> 'p) list"

subsection \<open>\<open>PassGroup\<close>\<close>

definition PassGroup_passes :: "('s, 't, 'p) PassGroup \<Rightarrow> 'p list" where
  "PassGroup_passes self = [pass. (unblinded_token, pass) \<leftarrow> pg_tokens self]"

definition PassGroup_unblinded_tokens :: "('s, 't, 'p) PassGroup \<Rightarrow> 't list" where
  "PassGroup_unblinded_tokens self =
     [unblinded_token. (unblinded_token, pass) \<leftarrow> pg_tokens self]"

fun py_enumerate :: "int \<Rightarrow> 'a list \<Rightarrow> (int \<times> 'a) list" where
  "py_enumerate idx [] = []"
| "py_enumerate idx (t # ts) = (idx, t) # py_enumerate (idx + 1) ts"

text \<open>One turn of the loop of \<open>split\<close>, on the pair \<open>(selected, unselected)\<close>.\<close>

definition split_step :: "int set \<Rightarrow> int \<times> 'a \<Rightarrow> 'a list \<times> 'a list \<Rightarrow> 'a list \<times> 'a list" where
  "split_step select_indices it acc =
     (case (it, acc) of
        ((idx, t), (selected, unselected)) \<Rightarrow>
          if idx \<in> select_indices then (selected @ [t], unselected)
          else (selected, unselected @ [t]))"

definition PassGroup_split ::
  "('s, 't, 'p) PassGroup \<Rightarrow> int set \<Rightarrow> ('s, 't, 'p) PassGroup \<times> ('s, 't, 'p) PassGroup" where
  "PassGroup_split self select_indices =
     (case fold (split_step select_indices) (py_enumerate 0 (pg_tokens self)) ([], []) of
        (selected, unselected) \<Rightarrow>
          (self\<lparr>pg_tokens := selected\<rparr>, self\<lparr>pg_tokens := unselected\<rparr>))"

subsection \<open>\<open>SpendingController\<close>\<close>

text \<open>The state of the client: the inventory and the log of \<open>eliot\<close> messages.\<close>

type_synonym 's client = "'s \<times> eliot_message list"

definition SpendingController_get ::
  "('s, 't, 'p) SpendingController \<Rightarrow> bytes \<Rightarrow> int \<Rightarrow> 's client \<Rightarrow>
   (error + ('s, 't, 'p) PassGroup) \<times> 's client" where
  "SpendingController_get self msg num_passes cl =
     (case cl of (s, events) \<Rightarrow>
      (case get_unblinded_tokens self num_passes s of
         (Inl e, s') \<Rightarrow> (Inl e, (s', events))
       | (Inr unblinded_tokens, s') \<Rightarrow>
      (case tokens_to_passes self msg unblinded_tokens of
         Inl e \<Rightarrow> (Inl e, (s', events))
       | Inr passes \<Rightarrow>
      (case utf8_decode msg of
         None \<Rightarrow> (Inl UnicodeDecodeError, (s', events))
       | Some decoded \<Rightarrow>
           (Inr \<lparr>pg_message = msg, pg_factory = self,
                 pg_tokens = zip unblinded_tokens passes\<rparr>,
            (s', events @ [GET_PASSES decoded num_passes]))))))"

definition SpendingController_mark_spent ::
  "('s, 't, 'p) SpendingController \<Rightarrow> 't list \<Rightarrow> 's client \<Rightarrow> (error + unit) \<times> 's client" where
  "SpendingController_mark_spent self unblinded_tokens cl =
     (case cl of (s, events) \<Rightarrow>
      (case discard_unblinded_tokens self unblinded_tokens s of
         (r, s') \<Rightarrow> (r, (s', events @ [SPENT_PASSES (int (length unblinded_tokens))]))))"

definition SpendingController_mark_invalid ::
  "('s, 't, 'p) SpendingController \<Rightarrow> string \<Rightarrow> 't list \<Rightarrow> 's client \<Rightarrow>
   (error + unit) \<times> 's client" where
  "SpendingController_mark_invalid self reason unblinded_tokens cl =
     (case cl of (s, events) \<Rightarrow>
      (case invalidate_unblinded_tokens self reason unblinded_tokens s of
         (r, s') \<Rightarrow>
           (r, (s', events @ [INVALID_PASSES reason (int (length unblinded_tokens))]))))"

definition SpendingController_reset ::
  "('s, 't, 'p) SpendingController \<Rightarrow> 't list \<Rightarrow> 's client \<Rightarrow> (error + unit) \<times> 's client" where
  "SpendingController_reset self unblinded_tokens cl =
     (case cl of (s, events) \<Rightarrow>
      (case reset_unblinded_tokens self unblinded_tokens s of
         (r, s') \<Rightarrow> (r, (s', events @ [RESET_PASSES (int (length unblinded_tokens))]))))"

subsection \<open>The terminal methods of \<open>PassGroup\<close>\<close>

definition PassGroup_mark_spent ::
  "('s, 't, 'p) PassGroup \<Rightarrow> 's client \<Rightarrow> (error + unit) \<times> 's client" where
  "PassGroup_mark_spent self cl =
     SpendingController_mark_spent (pg_factory self) (PassGroup_unblinded_tokens self) cl"

definition PassGroup_mark_invalid ::
  "('s, 't, 'p) PassGroup \<Rightarrow> string \<Rightarrow> 's client \<Rightarrow> (error + unit) \<times> 's client" where
  "PassGroup_mark_invalid self reason cl =
     SpendingController_mark_invalid (pg_factory self) reason
       (PassGroup_unblinded_tokens self) cl"

definition PassGroup_reset ::
  "('s, 't, 'p) PassGroup \<Rightarrow> 's client \<Rightarrow> (error + unit) \<times> 's client" where
  "PassGroup_reset self cl =
     SpendingController_reset (pg_factory self) (PassGroup_unblinded_tokens self) cl"

section \<open>Concrete collaborators for the examples\<close>

text \<open>
  A stand-in for the library: decoding fails on the empty string and is the identity
  otherwise, the unblinded token is the key followed by the preimage, and a signature is
  right when it is the verification key followed by the message.
\<close>

definition demo_lib :: "bytes privacypass" where
  "demo_lib =
     \<lparr>TokenPreimage_decode_base64 =
        (\<lambda>b. if b = [] then Inl (CollaboratorError ''preimage'') else Inr b),
      VerificationSignature_decode_base64 =
        (\<lambda>b. if b = [] then Inl (CollaboratorError ''signature'') else Inr b),
      rederive_unblinded_token = (\<lambda>key preimage. Inr (key @ preimage)),
      derive_verification_key_sha512 = (\<lambda>unblinded_token. Inr unblinded_token),
      invalid_sha512 = (\<lambda>key signature encoded. Inr (signature \<noteq> key @ encoded)),
      encode_utf8 = (\<lambda>m. Inr m)\<rparr>"

definition demo_common :: "bytes storage_common" where
  "demo_common =
     \<lparr>BYTES_PER_PASS = 1000000,
      allocate_buckets_message = (\<lambda>storage_index. ''allocate:'' @ storage_index),
      add_lease_message = (\<lambda>storage_index. ''add:'' @ storage_index),
      renew_lease_message = (\<lambda>storage_index. ''renew:'' @ storage_index),
      slot_testv_and_readv_and_writev_message = (\<lambda>storage_index. ''slot:'' @ storage_index)\<rparr>"

text \<open>
  A storage server that holds a table of leases and records every call made on it; a
  call returns the number of calls made before it.
\<close>

type_synonym demo_state = "(bytes \<times> LeaseInfo) list \<times> storage_call list"

definition demo_storage :: "(demo_state, nat) RIStorageServer" where
  "demo_storage =
     \<lparr>get_slot_leases = (\<lambda>st storage_index. [lease. (i, lease) \<leftarrow> fst st, i = storage_index]),
      invoke = (\<lambda>c st. (Inr (length (snd st)), (fst st, snd st @ [c])))\<rparr>"

definition demo_server :: "(demo_state, nat) ZKAPAuthorizerStorageServer" where
  "demo_server = \<lparr>original = demo_storage, signing_key = ''K'', clock = 100\<rparr>"

text \<open>
  An inventory that holds the available tokens and records the terminal reports; it
  tolerates a repeated report.
\<close>

datatype inventory_call =
    Discard "bytes list"
  | Invalidate string "bytes list"
  | Reset "bytes list"

type_synonym demo_inventory = "bytes list \<times> inventory_call list"

definition demo_controller :: "(demo_inventory, bytes, bytes) SpendingController" where
  "demo_controller =
     \<lparr>get_unblinded_tokens =
        (\<lambda>n s. if n < 0 \<or> int (length (fst s)) < n
               then (Inl (CollaboratorError ''NotEnoughTokens''), s)
               else (Inr (take (nat n) (fst s)), (drop (nat n) (fst s), snd s))),
      discard_unblinded_tokens = (\<lambda>ts s. (Inr (), (fst s, snd s @ [Discard ts]))),
      invalidate_unblinded_tokens = (\<lambda>reason ts s. (Inr (), (fst s, snd s @ [Invalidate reason ts]))),
      reset_unblinded_tokens = (\<lambda>ts s. (Inr (), (fst s @ ts, snd s @ [Reset ts]))),
      tokens_to_passes = (\<lambda>msg ts. Inr (map (\<lambda>t. t @ msg) ts))\<rparr>"

definition demo_group :: "(demo_inventory, bytes, bytes) PassGroup" where
  "demo_group =
     \<lparr>pg_message = ''m'', pg_factory = demo_controller,
      pg_tokens = [(''t0'', ''p0''), (''t1'', ''p1''), (''t2'', ''p2'')]\<rparr>"

section \<open>Single passes\<close>

lemma split_bytes_no_sep: "sep \<notin> set p \<Longrightarrow> split_bytes sep p = [p]"
  by (induction p) auto

lemma split_bytes_length: "length (split_bytes sep p) = Suc (count_list p sep)"
  by (induction p) (auto split: list.splits)

lemma check_pass_Inr_iff:
  "check_pass lib key m p = Inr v \<longleftrightarrow>
     (\<exists>a b preimage sg ut vk enc.
        split_bytes (CHR '' '') p = [a, b]
      \<and> TokenPreimage_decode_base64 lib a = Inr preimage
      \<and> VerificationSignature_decode_base64 lib b = Inr sg
      \<and> rederive_unblinded_token lib key preimage = Inr ut
      \<and> derive_verification_key_sha512 lib ut = Inr vk
      \<and> encode_utf8 lib m = Inr enc
      \<and> invalid_sha512 lib vk sg enc = Inr v)"
  unfolding check_pass_def
  by (auto split: list.splits sum.splits)

text \<open>
  Claim C4.  The check of a single pass always yields a boolean, and it fails closed: a
  pass counts as valid only when it splits into exactly two pieces at the delimiter, both
  pieces decode, the token and the verification key are rederived, the message encodes,
  and the signature check answers that the pass is not invalid.  Every exception of the
  body, a signature mismatch, and a pass without exactly one delimiter give "invalid".
\<close>

theorem is_invalid_pass_fails_closed:
  "(\<not> is_invalid_pass lib key m p \<longleftrightarrow>
      (\<exists>a b preimage sg ut vk enc.
         split_bytes (CHR '' '') p = [a, b]
       \<and> TokenPreimage_decode_base64 lib a = Inr preimage
       \<and> VerificationSignature_decode_base64 lib b = Inr sg
       \<and> rederive_unblinded_token lib key preimage = Inr ut
       \<and> derive_verification_key_sha512 lib ut = Inr vk
       \<and> encode_utf8 lib m = Inr enc
       \<and> invalid_sha512 lib vk sg enc = Inr False))
   \<and> (\<forall>e. check_pass lib key m p = Inl e \<longrightarrow> is_invalid_pass lib key m p)
   \<and> (check_pass lib key m p = Inr True \<longrightarrow> is_invalid_pass lib key m p)
   \<and> (count_list p (CHR '' '') \<noteq> 1 \<longrightarrow> is_invalid_pass lib key m p)"
proof (intro conjI allI impI)
  show "\<not> is_invalid_pass lib key m p \<longleftrightarrow>
      (\<exists>a b preimage sg ut vk enc.
         split_bytes (CHR '' '') p = [a, b]
       \<and> TokenPreimage_decode_base64 lib a = Inr preimage
       \<and> VerificationSignature_decode_base64 lib b = Inr sg
       \<and> rederive_unblinded_token lib key preimage = Inr ut
       \<and> derive_verification_key_sha512 lib ut = Inr vk
       \<and> encode_utf8 lib m = Inr enc
       \<and> invalid_sha512 lib vk sg enc = Inr False)"
  proof -
    have "\<not> is_invalid_pass lib key m p \<longleftrightarrow> check_pass lib key m p = Inr False"
      by (simp add: is_invalid_pass_def split: sum.splits)
    then show ?thesis by (simp only: check_pass_Inr_iff)
  qed
  show "is_invalid_pass lib key m p" if "check_pass lib key m p = Inl e" for e
    using that by (simp add: is_invalid_pass_def)
  show "is_invalid_pass lib key m p" if "check_pass lib key m p = Inr True"
    using that by (simp add: is_invalid_pass_def)
  show "is_invalid_pass lib key m p" if "count_list p (CHR '' '') \<noteq> 1"
  proof -
    have "length (split_bytes (CHR '' '') p) \<noteq> 2"
      using that by (simp add: split_bytes_length)
    then have "check_pass lib key m p = Inl ValueError"
      by (auto simp: check_pass_def split: list.splits)
    then show ?thesis by (simp add: is_invalid_pass_def)
  qed
qed

theorem is_invalid_pass_fails_closed_witness:
  "\<not> is_invalid_pass demo_lib ''K'' ''add:si'' ''P KPadd:si''
   \<and> is_invalid_pass demo_lib ''K'' ''add:si'' ''PKPadd:si''
   \<and> is_invalid_pass demo_lib ''K'' ''add:si'' '' KPadd:si''
   \<and> is_invalid_pass demo_lib ''K'' ''add:si'' ''P ''
   \<and> is_invalid_pass demo_lib ''K'' ''add:si'' ''P KPadd:sj''"
proof -
  have 1: "count_list ''PKPadd:si'' (CHR '' '') \<noteq> 1" by simp
  have 2: "check_pass demo_lib ''K'' ''add:si'' '' KPadd:si'' = Inl (CollaboratorError ''preimage'')"
    by (simp add: check_pass_def demo_lib_def)
  have 3: "check_pass demo_lib ''K'' ''add:si'' ''P '' = Inl (CollaboratorError ''signature'')"
    by (simp add: check_pass_def demo_lib_def)
  have 4: "check_pass demo_lib ''K'' ''add:si'' ''P KPadd:sj'' = Inr True"
    by (simp add: check_pass_def demo_lib_def)
  have 5: "split_bytes (CHR '' '') ''P KPadd:si'' = [''P'', ''KPadd:si'']" by simp
  have 6: "\<not> is_invalid_pass demo_lib ''K'' ''add:si'' ''P KPadd:si''"
    using is_invalid_pass_fails_closed [of demo_lib "''K''" "''add:si''" "''P KPadd:si''"] 5
    by (simp add: demo_lib_def)
  show ?thesis
    using 1 2 3 4 6
      is_invalid_pass_fails_closed [of demo_lib "''K''" "''add:si''" "''PKPadd:si''"]
      is_invalid_pass_fails_closed [of demo_lib "''K''" "''add:si''" "'' KPadd:si''"]
      is_invalid_pass_fails_closed [of demo_lib "''K''" "''add:si''" "''P ''"]
      is_invalid_pass_fails_closed [of demo_lib "''K''" "''add:si''" "''P KPadd:sj''"]
    by blast
qed

section \<open>Filtering the valid passes\<close>

text \<open>
  Claim C7.  The valid passes are a subsequence of the passes given, in their order; a
  pass is kept, as often as it occurs, exactly when it is valid by itself; the passes
  around it do not matter; and filtering the result again changes nothing.  The result is
  a function of the key, the message and the passes alone.
\<close>

theorem validate_passes_subsequence:
  "subseq (validate_passes lib key m ps) ps
   \<and> (\<forall>p. count_list (validate_passes lib key m ps) p =
            (if is_invalid_pass lib key m p then 0 else count_list ps p))
   \<and> set (validate_passes lib key m ps) = {p \<in> set ps. \<not> is_invalid_pass lib key m p}
   \<and> (\<forall>qs. validate_passes lib key m (ps @ qs) =
             validate_passes lib key m ps @ validate_passes lib key m qs)
   \<and> validate_passes lib key m (validate_passes lib key m ps) = validate_passes lib key m ps"
proof (intro conjI allI)
  show "subseq (validate_passes lib key m ps) ps"
    by (simp add: validate_passes_def)
  show "count_list (validate_passes lib key m ps) p =
          (if is_invalid_pass lib key m p then 0 else count_list ps p)" for p
    unfolding validate_passes_def by (induction ps) auto
  show "set (validate_passes lib key m ps) = {p \<in> set ps. \<not> is_invalid_pass lib key m p}"
    by (simp add: validate_passes_def)
  show "validate_passes lib key m (ps @ qs) =
          validate_passes lib key m ps @ validate_passes lib key m qs" for qs
    by (simp add: validate_passes_def)
  show "validate_passes lib key m (validate_passes lib key m ps) = validate_passes lib key m ps"
    by (simp add: validate_passes_def)
qed

section \<open>The number of passes required\<close>

lemma ceil_div_int:
  fixes bpp sz :: int
  assumes "0 < bpp"
  shows "- (- sz div bpp) = (sz + bpp - 1) div bpp"
proof -
  define q where "q = sz div bpp"
  define r where "r = sz mod bpp"
  have r: "0 \<le> r" "r < bpp" using assms by (simp_all add: r_def)
  have sz: "sz = q * bpp + r" by (simp add: q_def r_def)
  have lhs: "- sz div bpp = (if r = 0 then - q else - q - 1)"
    using assms by (simp add: zdiv_zminus1_eq_if q_def r_def)
  have "(r + bpp - 1 + q * bpp) div bpp = q + (r + bpp - 1) div bpp"
    using assms by (intro div_mult_self1) simp
  moreover have "sz + bpp - 1 = r + bpp - 1 + q * bpp" by (simp add: sz)
  ultimately have "(sz + bpp - 1) div bpp = (r + bpp - 1) div bpp + q"
    by (simp only: add.commute)
  moreover have "(r + bpp - 1) div bpp = (if r = 0 then 0 else 1)"
  proof (cases "r = 0")
    case True
    then show ?thesis using assms by (simp add: div_pos_pos_trivial)
  next
    case False
    then have "0 \<le> r - 1" "r - 1 < bpp" using r by simp_all
    then have "(r - 1) div bpp = 0" by (simp add: div_pos_pos_trivial)
    moreover have "(r - 1 + bpp) div bpp = (r - 1) div bpp + 1"
      using assms by (intro div_add_self2) simp
    moreover have "r + bpp - 1 = (r - 1) + bpp" by simp
    ultimately have "(r + bpp - 1) div bpp = 1"
      by (simp only: add_0)
    with False show ?thesis by simp
  qed
  ultimately show ?thesis using lhs by simp
qed

lemma required_for_bytes_div:
  "required_for_bytes bpp sz = - (- max sz 0 div bpp)"
  unfolding required_for_bytes_def by (rule ceiling_divide_eq_div)

lemma required_for_bytes_mono:
  assumes "0 < bpp" "sz \<le> sz'"
  shows "required_for_bytes bpp sz \<le> required_for_bytes bpp sz'"
proof -
  have "- max sz' 0 \<le> - max sz 0" using assms(2) by simp
  then have "- max sz' 0 div bpp \<le> - max sz 0 div bpp"
    using assms(1) by (rule zdiv_mono1)
  then show ?thesis by (simp add: required_for_bytes_div)
qed

lemma required_for_bytes_nonneg:
  assumes "0 < bpp"
  shows "0 \<le> required_for_bytes bpp sz"
proof -
  have "- max sz 0 div bpp \<le> 0"
    using assms by (simp add: div_nonpos_pos_le0)
  then show ?thesis by (simp add: required_for_bytes_div)
qed

text \<open>
  Claim C5.  For a positive number of bytes per pass and a size that is not negative, the
  number of passes required is the ceiling of their quotient: it is 0 for size 0, never
  negative, and grows with the size.  The count required for an allocation is that of the
  allocated size alone, whatever the share numbers, and it is the count the quantity check
  compares with.
\<close>

theorem required_passes_ceiling:
  assumes "0 < bpp" and "0 \<le> sz"
  shows "required_for_bytes bpp sz = \<lceil>real_of_int sz / real_of_int bpp\<rceil>
       \<and> required_for_bytes bpp sz = (sz + bpp - 1) div bpp
       \<and> required_for_bytes bpp 0 = 0
       \<and> 0 \<le> required_for_bytes bpp sz
       \<and> (\<forall>sz'. sz \<le> sz' \<longrightarrow> required_for_bytes bpp sz \<le> required_for_bytes bpp sz')
       \<and> (\<forall>sharenums. required_passes bpp sharenums sz = required_for_bytes bpp sz)
       \<and> (\<forall>sharenums v. check_pass_quantity_for_write bpp v sharenums sz =
             (if v < required_for_bytes bpp sz
              then Inl (MorePassesRequired v (required_for_bytes bpp sz)) else Inr ()))"
proof (intro conjI allI impI)
  show "required_for_bytes bpp sz = \<lceil>real_of_int sz / real_of_int bpp\<rceil>"
    using assms(2) by (simp add: required_for_bytes_def max_def)
  show "required_for_bytes bpp sz = (sz + bpp - 1) div bpp"
    using assms ceil_div_int [of bpp sz] by (simp add: required_for_bytes_div max_def)
  show "required_for_bytes bpp 0 = 0"
    by (simp add: required_for_bytes_def)
  show "0 \<le> required_for_bytes bpp sz"
    using assms(1) by (rule required_for_bytes_nonneg)
  show "required_for_bytes bpp sz \<le> required_for_bytes bpp sz'" if "sz \<le> sz'" for sz'
    using assms(1) that by (rule required_for_bytes_mono)
  show "required_passes bpp sharenums sz = required_for_bytes bpp sz" for sharenums
    by (simp add: required_passes_def)
  show "check_pass_quantity_for_write bpp v sharenums sz =
          (if v < required_for_bytes bpp sz
           then Inl (MorePassesRequired v (required_for_bytes bpp sz)) else Inr ())"
    for sharenums v
    by (simp add: check_pass_quantity_for_write_def required_passes_def Let_def)
qed

theorem required_passes_ceiling_witness:
  "(0::int) < 1000000 \<and> (0::int) \<le> 2500000
   \<and> required_for_bytes 1000000 2500000 = 3
   \<and> required_passes 1000000 {0, 1, 2} 2500000 = 3
   \<and> required_for_bytes 1000000 2500000 \<le> required_for_bytes 1000000 3000001
   \<and> check_pass_quantity_for_write 1000000 2 {0, 1, 2} 2500000
       = Inl (MorePassesRequired 2 3)"
proof -
  have h1: "(0::int) < 1000000" and h2: "(0::int) \<le> 2500000" by simp_all
  note t = required_passes_ceiling [OF h1 h2]
  have r: "required_for_bytes 1000000 2500000 = 3"
    using t by simp
  from t have mono: "\<forall>sz'. 2500000 \<le> sz' \<longrightarrow>
      required_for_bytes 1000000 2500000 \<le> required_for_bytes 1000000 sz'"
    by blast
  have m: "required_for_bytes 1000000 2500000 \<le> required_for_bytes 1000000 3000001"
    using mono [rule_format, of 3000001] by simp
  have a: "required_passes 1000000 {0, 1, 2} 2500000 = 3"
    using t r by simp
  have c: "check_pass_quantity_for_write 1000000 2 {0, 1, 2} 2500000
             = Inl (MorePassesRequired 2 3)"
    using t r by simp
  show ?thesis using r m a c by simp
qed

section \<open>Allocating buckets\<close>

text \<open>
  Claim C3.  \<open>allocate_buckets\<close> validates the passes against the allocate-buckets message
  of the storage index (\<open>BYTES_PER_PASS\<close> being positive).  With fewer valid passes than the sharenums and the allocated size
  require, the call fails with \<open>MorePassesRequired\<close> of the valid and the required count
  and the storage state is the one it started with, whatever the wrapped server is: the
  request is not forwarded.  Otherwise the outcome is that of the forwarded request.
\<close>

theorem allocate_buckets_pass_check:
  assumes "0 < BYTES_PER_PASS sc"
  shows "(let valid_passes = validate_passes lib (signing_key self)
                               (allocate_buckets_message sc storage_index) passes;
              valid_count = int (length valid_passes);
              required_count = required_passes (BYTES_PER_PASS sc) sharenums allocated_size
          in remote_allocate_buckets lib sc self passes storage_index renew_secret
               cancel_secret sharenums allocated_size canary st =
             (if valid_count < required_count
              then (Inl (MorePassesRequired valid_count required_count), st)
              else invoke (original self)
                     (Allocate_buckets storage_index renew_secret cancel_secret
                        sharenums allocated_size canary) st))"
  by (simp add: remote_allocate_buckets_def check_pass_quantity_for_write_def Let_def)

theorem allocate_buckets_pass_check_witness:
  "0 < BYTES_PER_PASS demo_common
   \<and> remote_allocate_buckets demo_lib demo_common demo_server
        [''A KAallocate:si'', ''bogus'', ''B KBallocate:si'']
        ''si'' ''rs'' ''cs'' {0, 1, 2} 2500000 7 ([], [])
       = (Inl (MorePassesRequired 2 3), ([], []))
   \<and> remote_allocate_buckets demo_lib demo_common demo_server
        [''A KAallocate:si'', ''B KBallocate:si'', ''C KCallocate:si'']
        ''si'' ''rs'' ''cs'' {0, 1, 2} 2500000 7 ([], [])
       = (Inr 0, ([], [Allocate_buckets ''si'' ''rs'' ''cs'' {0, 1, 2} 2500000 7]))"
proof -
  have h: "0 < BYTES_PER_PASS demo_common" by (simp add: demo_common_def)
  have v2: "validate_passes demo_lib (signing_key demo_server)
              (allocate_buckets_message demo_common ''si'')
              [''A KAallocate:si'', ''bogus'', ''B KBallocate:si'']
            = [''A KAallocate:si'', ''B KBallocate:si'']"
    by (simp add: validate_passes_def is_invalid_pass_def check_pass_def demo_lib_def
          demo_server_def demo_common_def)
  have v3: "validate_passes demo_lib (signing_key demo_server)
              (allocate_buckets_message demo_common ''si'')
              [''A KAallocate:si'', ''B KBallocate:si'', ''C KCallocate:si'']
            = [''A KAallocate:si'', ''B KBallocate:si'', ''C KCallocate:si'']"
    by (simp add: validate_passes_def is_invalid_pass_def check_pass_def demo_lib_def
          demo_server_def demo_common_def)
  have r: "required_passes (BYTES_PER_PASS demo_common) {0, 1, 2} 2500000 = 3"
    by (simp add: required_passes_def required_for_bytes_def demo_common_def)
  have i: "invoke (original demo_server)
             (Allocate_buckets ''si'' ''rs'' ''cs'' {0, 1, 2} 2500000 7) ([], [])
           = (Inr 0, ([], [Allocate_buckets ''si'' ''rs'' ''cs'' {0, 1, 2} 2500000 7]))"
    by (simp add: demo_server_def demo_storage_def)
  show ?thesis
    using h
      allocate_buckets_pass_check [OF h, where lib = demo_lib and self = demo_server
        and storage_index = "''si''" and sharenums = "{0, 1, 2}"
        and allocated_size = 2500000 and renew_secret = "''rs''" and cancel_secret = "''cs''"
        and canary = 7 and st = "([], [])"
        and passes = "[''A KAallocate:si'', ''bogus'', ''B KBallocate:si'']"]
      allocate_buckets_pass_check [OF h, where lib = demo_lib and self = demo_server
        and storage_index = "''si''" and sharenums = "{0, 1, 2}"
        and allocated_size = 2500000 and renew_secret = "''rs''" and cancel_secret = "''cs''"
        and canary = 7 and st = "([], [])"
        and passes = "[''A KAallocate:si'', ''B KBallocate:si'', ''C KCallocate:si'']"]
    by (simp only: v2 v3 r i Let_def) simp
qed

section \<open>Writing to a slot\<close>

lemma collect_all_Inr: "collect (map Inr xs) = Inr xs"
  by (induction xs) auto

lemma py_max_nonempty: "xs \<noteq> [] \<Longrightarrow> \<exists>v. py_max xs = Inr v"
  by (cases xs) auto

lemma written_sizes:
  "\<exists>sizes. [py_max [offset + int (length s). (offset, s) \<leftarrow> data].
             (sharenum, (test, data, new_length)) \<leftarrow> tw, data \<noteq> []] = map Inr sizes
         \<and> (sizes = [] \<longleftrightarrow> get_sharenums tw = {})"
proof (induction tw)
  case Nil
  then show ?case by (simp add: get_sharenums_def)
next
  case (Cons x tw)
  obtain sharenum test data new_length where x: "x = (sharenum, (test, data, new_length))"
    by (cases x) auto
  from Cons obtain sizes where
    sizes: "[py_max [offset + int (length s). (offset, s) \<leftarrow> data].
              (sharenum, (test, data, new_length)) \<leftarrow> tw, data \<noteq> []] = map Inr sizes"
      "sizes = [] \<longleftrightarrow> get_sharenums tw = {}"
    by blast
  show ?case
  proof (cases "data = []")
    case True
    with x sizes show ?thesis
      by (auto simp: get_sharenums_def)
  next
    case False
    then have "[offset + int (length s). (offset, s) \<leftarrow> data] \<noteq> []"
      by (cases data) auto
    then obtain v where "py_max [offset + int (length s). (offset, s) \<leftarrow> data] = Inr v"
      using py_max_nonempty by blast
    with x sizes False show ?thesis
      by (intro exI [of _ "v # sizes"]) (auto simp: get_sharenums_def)
  qed
qed

lemma has_writes_allocated_size:
  assumes "has_writes tw"
  shows "\<exists>allocated_size. get_allocated_size tw = Inr allocated_size"
proof -
  obtain sizes where
    sizes: "[py_max [offset + int (length s). (offset, s) \<leftarrow> data].
              (sharenum, (test, data, new_length)) \<leftarrow> tw, data \<noteq> []] = map Inr sizes"
      "sizes = [] \<longleftrightarrow> get_sharenums tw = {}"
    using written_sizes by blast
  from assms sizes(2) have "sizes \<noteq> []" by (simp add: has_writes_def)
  then obtain v where "py_max sizes = Inr v" using py_max_nonempty by blast
  then show ?thesis
    unfolding get_allocated_size_def by (simp only: sizes(1) collect_all_Inr) simp
qed

text \<open>
  Claim C1.  A slot call whose vectors hold no write, and a slot call with writes to a
  storage index that holds a lease expiring after the clock's time, are forwarded with
  \<open>renew_leases = False\<close>: the outcome is that of the wrapped server's call and depends
  neither on the passes, nor on the signing key, nor on the library.  The gate asks for
  passes only when there are writes and no such lease.
\<close>

theorem slot_write_without_authorization:
  "(\<not> has_writes tw \<longrightarrow>
      remote_slot_testv_and_readv_and_writev lib sc self passes storage_index secrets tw
        r_vector st =
      invoke (original self)
        (Slot_testv_and_readv_and_writev storage_index secrets tw r_vector False) st)
   \<and> (has_writes tw \<and> has_active_lease (original self) st storage_index (clock self) \<longrightarrow>
      remote_slot_testv_and_readv_and_writev lib sc self passes storage_index secrets tw
        r_vector st =
      invoke (original self)
        (Slot_testv_and_readv_and_writev storage_index secrets tw r_vector False) st)
   \<and> (has_active_lease (original self) st storage_index (clock self) \<longleftrightarrow>
        (\<exists>lease \<in> set (get_slot_leases (original self) st storage_index).
           get_expiration_time lease > clock self))
   \<and> (authorize_slot_write lib sc self passes storage_index tw st \<noteq> Inr False \<longrightarrow>
        has_writes tw \<and> \<not> has_active_lease (original self) st storage_index (clock self))"
  by (auto simp: remote_slot_testv_and_readv_and_writev_def authorize_slot_write_def
        has_active_lease_def list_ex_iff)

theorem slot_write_without_authorization_witness:
  "\<not> has_writes [(0, ([(0, 1, ''eq'', ''x'')], [], None))]
   \<and> remote_slot_testv_and_readv_and_writev demo_lib demo_common demo_server [] ''si''
        (''ws'', ''rs'', ''cs'') [(0, ([(0, 1, ''eq'', ''x'')], [], None))] [(0, 1)] ([], [])
       = (Inr 0, ([], [Slot_testv_and_readv_and_writev ''si'' (''ws'', ''rs'', ''cs'')
                        [(0, ([(0, 1, ''eq'', ''x'')], [], None))] [(0, 1)] False]))
   \<and> has_writes [(0, ([], [(1500000, ''abc'')], None))]
   \<and> has_active_lease (original demo_server) ([(''si'', LeaseInfo 101)], []) ''si''
        (clock demo_server)
   \<and> remote_slot_testv_and_readv_and_writev demo_lib demo_common demo_server [] ''si''
        (''ws'', ''rs'', ''cs'') [(0, ([], [(1500000, ''abc'')], None))] []
        ([(''si'', LeaseInfo 101)], [])
       = (Inr 0, ([(''si'', LeaseInfo 101)],
                  [Slot_testv_and_readv_and_writev ''si'' (''ws'', ''rs'', ''cs'')
                     [(0, ([], [(1500000, ''abc'')], None))] [] False]))
   \<and> authorize_slot_write demo_lib demo_common demo_server [] ''si''
        [(0, ([], [(1500000, ''abc'')], None))] ([(''si'', LeaseInfo 100)], [])
       \<noteq> Inr False
   \<and> \<not> has_active_lease (original demo_server) ([(''si'', LeaseInfo 100)], []) ''si''
        (clock demo_server)"
proof -
  have nw: "\<not> has_writes [(0, ([(0, 1, ''eq'', ''x'')], [], None))]"
    by (simp add: has_writes_def get_sharenums_def)
  have hw: "has_writes [(0, ([], [(1500000, ''abc'')], None))]"
    by (simp add: has_writes_def get_sharenums_def)
  have al: "has_active_lease (original demo_server) ([(''si'', LeaseInfo 101)], []) ''si''
              (clock demo_server)"
    by (simp add: has_active_lease_def demo_server_def demo_storage_def)
  have au: "authorize_slot_write demo_lib demo_common demo_server [] ''si''
              [(0, ([], [(1500000, ''abc'')], None))] ([(''si'', LeaseInfo 100)], [])
            \<noteq> Inr False"
    by (simp add: authorize_slot_write_def has_writes_def get_sharenums_def
          has_active_lease_def demo_server_def demo_storage_def demo_common_def
          validate_passes_def check_pass_quantity_for_mutable_write_def
          get_allocated_size_def check_pass_quantity_for_write_def required_passes_def
          required_for_bytes_def Let_def)
  have i0: "invoke (original demo_server)
              (Slot_testv_and_readv_and_writev ''si'' (''ws'', ''rs'', ''cs'')
                 [(0, ([(0, 1, ''eq'', ''x'')], [], None))] [(0, 1)] False) ([], [])
            = (Inr 0, ([], [Slot_testv_and_readv_and_writev ''si'' (''ws'', ''rs'', ''cs'')
                        [(0, ([(0, 1, ''eq'', ''x'')], [], None))] [(0, 1)] False]))"
    by (simp add: demo_server_def demo_storage_def)
  have i1: "invoke (original demo_server)
              (Slot_testv_and_readv_and_writev ''si'' (''ws'', ''rs'', ''cs'')
                 [(0, ([], [(1500000, ''abc'')], None))] [] False)
              ([(''si'', LeaseInfo 101)], [])
            = (Inr 0, ([(''si'', LeaseInfo 101)],
                  [Slot_testv_and_readv_and_writev ''si'' (''ws'', ''rs'', ''cs'')
                     [(0, ([], [(1500000, ''abc'')], None))] [] False]))"
    by (simp add: demo_server_def demo_storage_def)
  note a = slot_write_without_authorization [where lib = demo_lib and sc = demo_common
      and self = demo_server and passes = "[]" and storage_index = "''si''"
      and secrets = "(''ws'', ''rs'', ''cs'')"
      and tw = "[(0, ([(0, 1, ''eq'', ''x'')], [], None))]" and r_vector = "[(0, 1)]"
      and st = "([], [])"]
  note b = slot_write_without_authorization [where lib = demo_lib and sc = demo_common
      and self = demo_server and passes = "[]" and storage_index = "''si''"
      and secrets = "(''ws'', ''rs'', ''cs'')"
      and tw = "[(0, ([], [(1500000, ''abc'')], None))]" and r_vector = "[]"
      and st = "([(''si'', LeaseInfo 101)], [])"]
  note c = slot_write_without_authorization [where lib = demo_lib and sc = demo_common
      and self = demo_server and passes = "[]" and storage_index = "''si''"
      and tw = "[(0, ([], [(1500000, ''abc'')], None))]"
      and st = "([(''si'', LeaseInfo 100)], [])"]
  have 1: "remote_slot_testv_and_readv_and_writev demo_lib demo_common demo_server [] ''si''
        (''ws'', ''rs'', ''cs'') [(0, ([(0, 1, ''eq'', ''x'')], [], None))] [(0, 1)] ([], [])
       = (Inr 0, ([], [Slot_testv_and_readv_and_writev ''si'' (''ws'', ''rs'', ''cs'')
                        [(0, ([(0, 1, ''eq'', ''x'')], [], None))] [(0, 1)] False]))"
    using a nw i0 by simp
  have 2: "remote_slot_testv_and_readv_and_writev demo_lib demo_common demo_server [] ''si''
        (''ws'', ''rs'', ''cs'') [(0, ([], [(1500000, ''abc'')], None))] []
        ([(''si'', LeaseInfo 101)], [])
       = (Inr 0, ([(''si'', LeaseInfo 101)],
                  [Slot_testv_and_readv_and_writev ''si'' (''ws'', ''rs'', ''cs'')
                     [(0, ([], [(1500000, ''abc'')], None))] [] False]))"
    using b hw al i1 by simp
  have 3: "\<not> has_active_lease (original demo_server) ([(''si'', LeaseInfo 100)], []) ''si''
        (clock demo_server)"
    using c au by blast
  show ?thesis using nw hw al au 1 2 3 by blast
qed

text \<open>
  Claim C2.  For a positive \<open>BYTES_PER_PASS\<close>, a slot call with writes to a storage
  index without an active lease has a largest written position, and it validates the
  passes against the slot message of the storage index and compares the number of
  valid passes with the number required for the shares written and the largest position
  written.  With too few the call fails with \<open>MorePassesRequired\<close> of the valid and the
  required count and the storage state is unchanged, whatever the wrapped server is;
  otherwise the write is forwarded with \<open>renew_leases = True\<close>.
\<close>

theorem slot_write_pass_check:
  assumes "0 < BYTES_PER_PASS sc"
    and "has_writes tw"
    and "\<not> has_active_lease (original self) st storage_index (clock self)"
  shows "\<exists>allocated_size. get_allocated_size tw = Inr allocated_size
     \<and> (let valid_passes = validate_passes lib (signing_key self)
                 (slot_testv_and_readv_and_writev_message sc storage_index) passes;
             valid_count = int (length valid_passes);
             required_count = required_passes (BYTES_PER_PASS sc) (get_sharenums tw)
                                allocated_size
         in remote_slot_testv_and_readv_and_writev lib sc self passes storage_index secrets
              tw r_vector st =
            (if valid_count < required_count
             then (Inl (MorePassesRequired valid_count required_count), st)
             else invoke (original self)
                    (Slot_testv_and_readv_and_writev storage_index secrets tw r_vector True)
                    st))"
proof -
  obtain allocated_size where a: "get_allocated_size tw = Inr allocated_size"
    using has_writes_allocated_size [OF assms(2)] by blast
  show ?thesis
    using assms(2,3) a
    by (intro exI [of _ allocated_size])
       (simp add: remote_slot_testv_and_readv_and_writev_def authorize_slot_write_def
          check_pass_quantity_for_mutable_write_def check_pass_quantity_for_write_def Let_def)
qed

theorem slot_write_pass_check_witness:
  "0 < BYTES_PER_PASS demo_common
   \<and> has_writes [(0, ([], [(1500000, ''abc'')], None))]
   \<and> \<not> has_active_lease (original demo_server) ([(''si'', LeaseInfo 100)], []) ''si''
        (clock demo_server)
   \<and> remote_slot_testv_and_readv_and_writev demo_lib demo_common demo_server
        [''A KAslot:si'', ''B KBallocate:si''] ''si''
        (''ws'', ''rs'', ''cs'') [(0, ([], [(1500000, ''abc'')], None))] []
        ([(''si'', LeaseInfo 100)], [])
       = (Inl (MorePassesRequired 1 2), ([(''si'', LeaseInfo 100)], []))
   \<and> remote_slot_testv_and_readv_and_writev demo_lib demo_common demo_server
        [''A KAslot:si'', ''B KBslot:si''] ''si''
        (''ws'', ''rs'', ''cs'') [(0, ([], [(1500000, ''abc'')], None))] []
        ([(''si'', LeaseInfo 100)], [])
       = (Inr 0, ([(''si'', LeaseInfo 100)],
                  [Slot_testv_and_readv_and_writev ''si'' (''ws'', ''rs'', ''cs'')
                     [(0, ([], [(1500000, ''abc'')], None))] [] True]))"
proof -
  have h: "0 < BYTES_PER_PASS demo_common" by (simp add: demo_common_def)
  have hw: "has_writes [(0, ([], [(1500000, ''abc'')], None))]"
    by (simp add: has_writes_def get_sharenums_def)
  have nl: "\<not> has_active_lease (original demo_server) ([(''si'', LeaseInfo 100)], []) ''si''
              (clock demo_server)"
    by (simp add: has_active_lease_def demo_server_def demo_storage_def)
  have sz: "get_allocated_size [(0, ([], [(1500000, ''abc'')], None))] = Inr 1500003"
    by (simp add: get_allocated_size_def)
  have r: "required_passes (BYTES_PER_PASS demo_common)
             (get_sharenums [(0, ([], [(1500000, ''abc'')], None))]) 1500003 = 2"
    by (simp add: required_passes_def required_for_bytes_def demo_common_def)
  have v1: "validate_passes demo_lib (signing_key demo_server)
              (slot_testv_and_readv_and_writev_message demo_common ''si'')
              [''A KAslot:si'', ''B KBallocate:si''] = [''A KAslot:si'']"
    by (simp add: validate_passes_def is_invalid_pass_def check_pass_def demo_lib_def
          demo_server_def demo_common_def)
  have v2: "validate_passes demo_lib (signing_key demo_server)
              (slot_testv_and_readv_and_writev_message demo_common ''si'')
              [''A KAslot:si'', ''B KBslot:si''] = [''A KAslot:si'', ''B KBslot:si'']"
    by (simp add: validate_passes_def is_invalid_pass_def check_pass_def demo_lib_def
          demo_server_def demo_common_def)
  have i: "invoke (original demo_server)
             (Slot_testv_and_readv_and_writev ''si'' (''ws'', ''rs'', ''cs'')
                [(0, ([], [(1500000, ''abc'')], None))] [] True)
             ([(''si'', LeaseInfo 100)], [])
           = (Inr 0, ([(''si'', LeaseInfo 100)],
                  [Slot_testv_and_readv_and_writev ''si'' (''ws'', ''rs'', ''cs'')
                     [(0, ([], [(1500000, ''abc'')], None))] [] True]))"
    by (simp add: demo_server_def demo_storage_def)
  note a = slot_write_pass_check [OF h hw nl, where lib = demo_lib
      and passes = "[''A KAslot:si'', ''B KBallocate:si'']"
      and secrets = "(''ws'', ''rs'', ''cs'')" and r_vector = "[]"]
  note b = slot_write_pass_check [OF h hw nl, where lib = demo_lib
      and passes = "[''A KAslot:si'', ''B KBslot:si'']"
      and secrets = "(''ws'', ''rs'', ''cs'')" and r_vector = "[]"]
  have 1: "remote_slot_testv_and_readv_and_writev demo_lib demo_common demo_server
        [''A KAslot:si'', ''B KBallocate:si''] ''si''
        (''ws'', ''rs'', ''cs'') [(0, ([], [(1500000, ''abc'')], None))] []
        ([(''si'', LeaseInfo 100)], [])
       = (Inl (MorePassesRequired 1 2), ([(''si'', LeaseInfo 100)], []))"
    using a by (simp add: sz v1 r)
  have 2: "remote_slot_testv_and_readv_and_writev demo_lib demo_common demo_server
        [''A KAslot:si'', ''B KBslot:si''] ''si''
        (''ws'', ''rs'', ''cs'') [(0, ([], [(1500000, ''abc'')], None))] []
        ([(''si'', LeaseInfo 100)], [])
       = (Inr 0, ([(''si'', LeaseInfo 100)],
                  [Slot_testv_and_readv_and_writev ''si'' (''ws'', ''rs'', ''cs'')
                     [(0, ([], [(1500000, ''abc'')], None))] [] True]))"
    using b by (simp add: sz v2 r i)
  show ?thesis using h hw nl 1 2 by blast
qed

section \<open>Adding and renewing leases\<close>

lemma remote_add_lease_forwards:
  "remote_add_lease lib sc self passes storage_index a st =
     invoke (original self) (Add_lease storage_index a) st"
  by (simp add: remote_add_lease_def)

lemma remote_renew_lease_forwards:
  "remote_renew_lease lib sc self passes storage_index a st =
     invoke (original self) (Renew_lease storage_index a) st"
  by (simp add: remote_renew_lease_def)

text \<open>
  Claim C6.  The claim is that \<open>add_lease\<close> and \<open>renew_lease\<close> proceed only when some
  valid passes are present.  The methods compute the valid passes and drop the result: here
  an \<open>add_lease\<close> with one invalid pass and a \<open>renew_lease\<close> with no pass at all have no
  valid pass, and both reach the wrapped server.
\<close>

theorem lease_calls_forwarded_without_valid_passes:
  "validate_passes demo_lib (signing_key demo_server) (add_lease_message demo_common ''si'')
     [''bogus''] = []
   \<and> remote_add_lease demo_lib demo_common demo_server [''bogus''] ''si'' [''rs'', ''cs'']
       ([], []) = (Inr 0, ([], [Add_lease ''si'' [''rs'', ''cs'']]))
   \<and> validate_passes demo_lib (signing_key demo_server) (renew_lease_message demo_common ''si'')
       [] = []
   \<and> remote_renew_lease demo_lib demo_common demo_server [] ''si'' [''rs'']
       ([], []) = (Inr 0, ([], [Renew_lease ''si'' [''rs'']]))"
  by (simp add: validate_passes_def is_invalid_pass_def check_pass_def demo_lib_def
        demo_server_def demo_common_def demo_storage_def remote_add_lease_def
        remote_renew_lease_def)

section \<open>Splitting a group\<close>

lemma py_enumerate_snd: "map snd (py_enumerate k ts) = ts"
  by (induction ts arbitrary: k) auto

lemma fold_split_step:
  "fold (split_step S) its (selected, unselected) =
     (selected @ map snd (filter (\<lambda>it. fst it \<in> S) its),
      unselected @ map snd (filter (\<lambda>it. fst it \<notin> S) its))"
  by (induction its arbitrary: selected unselected) (auto simp: split_step_def)

lemma py_enumerate_nths:
  "map snd (filter (\<lambda>it. P (fst it)) (py_enumerate k ts)) = nths ts {i. P (k + int i)}"
proof (induction ts arbitrary: k)
  case Nil
  then show ?case by simp
next
  case (Cons t ts)
  have "{j. P (k + int (Suc j))} = {i. P (k + 1 + int i)}"
    by (simp add: algebra_simps)
  with Cons [of "k + 1"] show ?case
    by (simp add: nths_Cons)
qed

lemma mset_map_partition:
  "mset (map f (filter P xs)) + mset (map f (filter (\<lambda>x. \<not> P x) xs)) = mset (map f xs)"
  by (induction xs) auto

lemma split_tokens:
  "pg_tokens (fst (PassGroup_split g S)) = map snd (filter (\<lambda>it. fst it \<in> S) (py_enumerate 0 (pg_tokens g)))"
  "pg_tokens (snd (PassGroup_split g S)) = map snd (filter (\<lambda>it. fst it \<notin> S) (py_enumerate 0 (pg_tokens g)))"
  by (simp_all add: PassGroup_split_def fold_split_step)

text \<open>
  Claim C8.  \<open>split\<close> returns two groups: the first holds the pairs at the positions in
  the given set, the second the pairs at the other positions, both in their order and
  both with the message and the factory of the original.  Together they hold each pair of
  the original as often as the original does.
\<close>

theorem split_partitions_by_index:
  "pg_tokens (fst (PassGroup_split g S)) = nths (pg_tokens g) {i. int i \<in> S}
   \<and> pg_tokens (snd (PassGroup_split g S)) = nths (pg_tokens g) {i. int i \<notin> S}
   \<and> pg_message (fst (PassGroup_split g S)) = pg_message g
   \<and> pg_message (snd (PassGroup_split g S)) = pg_message g
   \<and> pg_factory (fst (PassGroup_split g S)) = pg_factory g
   \<and> pg_factory (snd (PassGroup_split g S)) = pg_factory g
   \<and> mset (pg_tokens (fst (PassGroup_split g S)) @ pg_tokens (snd (PassGroup_split g S)))
       = mset (pg_tokens g)"
proof (intro conjI)
  show "pg_tokens (fst (PassGroup_split g S)) = nths (pg_tokens g) {i. int i \<in> S}"
    using py_enumerate_nths [of "\<lambda>i. i \<in> S" 0 "pg_tokens g"] by (simp add: split_tokens)
  show "pg_tokens (snd (PassGroup_split g S)) = nths (pg_tokens g) {i. int i \<notin> S}"
    using py_enumerate_nths [of "\<lambda>i. i \<notin> S" 0 "pg_tokens g"] by (simp add: split_tokens)
  show "pg_message (fst (PassGroup_split g S)) = pg_message g"
    by (simp add: PassGroup_split_def split: prod.splits)
  show "pg_message (snd (PassGroup_split g S)) = pg_message g"
    by (simp add: PassGroup_split_def split: prod.splits)
  show "pg_factory (fst (PassGroup_split g S)) = pg_factory g"
    by (simp add: PassGroup_split_def split: prod.splits)
  show "pg_factory (snd (PassGroup_split g S)) = pg_factory g"
    by (simp add: PassGroup_split_def split: prod.splits)
  have "mset (map snd (filter (\<lambda>it. fst it \<in> S) (py_enumerate 0 (pg_tokens g))))
        + mset (map snd (filter (\<lambda>it. fst it \<notin> S) (py_enumerate 0 (pg_tokens g))))
        = mset (map snd (py_enumerate 0 (pg_tokens g)))"
    by (rule mset_map_partition)
  then show "mset (pg_tokens (fst (PassGroup_split g S)) @ pg_tokens (snd (PassGroup_split g S)))
       = mset (pg_tokens g)"
    by (simp add: split_tokens py_enumerate_snd)
qed

lemma split_example:
  "PassGroup_split demo_group {0, 2, 5, -1} = (demo_group\<lparr>pg_tokens := [(''t0'', ''p0''), (''t2'', ''p2'')]\<rparr>, demo_group\<lparr>pg_tokens := [(''t1'', ''p1'')]\<rparr>)"
  by (simp add: PassGroup_split_def demo_group_def split_step_def)

section \<open>Terminal calls\<close>

text \<open>
  Claim C9, as amended.  A group keeps no record of terminal calls.  In every state of
  the client, so also in one that an earlier terminal call on the same group has left,
  \<open>mark_spent\<close>, \<open>mark_invalid\<close> and \<open>reset\<close> log the number of pairs and hand the
  group's unblinded tokens to the inventory's discard, invalidate or reset operation;
  the call raises only what that operation raises.
\<close>

theorem terminal_methods_forward_every_call:
  "PassGroup_mark_spent g (s, events) =
     (fst (discard_unblinded_tokens (pg_factory g) (map fst (pg_tokens g)) s),
      (snd (discard_unblinded_tokens (pg_factory g) (map fst (pg_tokens g)) s),
       events @ [SPENT_PASSES (int (length (pg_tokens g)))]))
   \<and> PassGroup_mark_invalid g reason (s, events) =
     (fst (invalidate_unblinded_tokens (pg_factory g) reason (map fst (pg_tokens g)) s),
      (snd (invalidate_unblinded_tokens (pg_factory g) reason (map fst (pg_tokens g)) s),
       events @ [INVALID_PASSES reason (int (length (pg_tokens g)))]))
   \<and> PassGroup_reset g (s, events) =
     (fst (reset_unblinded_tokens (pg_factory g) (map fst (pg_tokens g)) s),
      (snd (reset_unblinded_tokens (pg_factory g) (map fst (pg_tokens g)) s),
       events @ [RESET_PASSES (int (length (pg_tokens g)))]))"
proof -
  have u: "PassGroup_unblinded_tokens g = map fst (pg_tokens g)"
    unfolding PassGroup_unblinded_tokens_def by (induction "pg_tokens g") auto
  show ?thesis
    by (simp add: PassGroup_mark_spent_def PassGroup_mark_invalid_def PassGroup_reset_def
          SpendingController_mark_spent_def SpendingController_mark_invalid_def
          SpendingController_reset_def u split: prod.splits)
qed

text \<open>
  Claim C9 as stated fails: after \<open>mark_spent\<close> on a group, a second \<open>mark_spent\<close> and a
  \<open>reset\<close> on the same group both return normally, and the inventory receives the
  group's tokens a second time.
\<close>

theorem second_terminal_call_counterexample:
  "PassGroup_mark_spent demo_group (([], []), []) =
     (Inr (), (([], [Discard [''t0'', ''t1'', ''t2'']]), [SPENT_PASSES 3]))
   \<and> PassGroup_mark_spent demo_group (([], [Discard [''t0'', ''t1'', ''t2'']]), [SPENT_PASSES 3]) =
     (Inr (), (([], [Discard [''t0'', ''t1'', ''t2''], Discard [''t0'', ''t1'', ''t2'']]),
               [SPENT_PASSES 3, SPENT_PASSES 3]))
   \<and> PassGroup_reset demo_group (([], [Discard [''t0'', ''t1'', ''t2'']]), [SPENT_PASSES 3]) =
     (Inr (), (([''t0'', ''t1'', ''t2''],
                [Discard [''t0'', ''t1'', ''t2''], Reset [''t0'', ''t1'', ''t2'']]),
               [SPENT_PASSES 3, RESET_PASSES 3]))"
  by (simp add: PassGroup_mark_spent_def PassGroup_reset_def SpendingController_mark_spent_def
        SpendingController_reset_def PassGroup_unblinded_tokens_def demo_group_def
        demo_controller_def)

section \<open>A message that is not UTF-8\<close>

text \<open>
  Claim C10.  When the message is not valid UTF-8, \<open>get\<close> returns no group.  When the
  inventory hands out the tokens and they convert to passes, \<open>get\<close> raises the decode
  error after both: the inventory is left as the draw left it, nothing is logged, and the
  caller holds no group with the tokens drawn.
\<close>

theorem get_undecodable_message:
  assumes "utf8_decode msg = None"
  shows "(\<exists>e cl'. SpendingController_get self msg num_passes cl = (Inl e, cl'))
       \<and> (\<forall>s events unblinded_tokens s' passes.
             cl = (s, events)
           \<and> get_unblinded_tokens self num_passes s = (Inr unblinded_tokens, s')
           \<and> tokens_to_passes self msg unblinded_tokens = Inr passes
           \<longrightarrow> SpendingController_get self msg num_passes cl
                 = (Inl UnicodeDecodeError, (s', events)))"
  using assms
  by (auto simp: SpendingController_get_def split: prod.splits sum.splits)

theorem get_undecodable_message_witness:
  "utf8_decode [CHR 0x6D, CHR 0xFF] = None
   \<and> get_unblinded_tokens demo_controller 2 ([''t0'', ''t1'', ''t2''], [])
       = (Inr [''t0'', ''t1''], ([''t2''], []))
   \<and> SpendingController_get demo_controller [CHR 0x6D, CHR 0xFF] 2
        (([''t0'', ''t1'', ''t2''], []), [])
       = (Inl UnicodeDecodeError, (([''t2''], []), []))"
proof -
  have h: "utf8_decode [CHR 0x6D, CHR 0xFF] = None"
    by (simp add: utf8_decode_def)
  have d: "get_unblinded_tokens demo_controller 2 ([''t0'', ''t1'', ''t2''], [])
             = (Inr [''t0'', ''t1''], ([''t2''], []))"
    by (simp add: demo_controller_def)
  have c: "tokens_to_passes demo_controller [CHR 0x6D, CHR 0xFF] [''t0'', ''t1'']
             = Inr [''t0'' @ [CHR 0x6D, CHR 0xFF], ''t1'' @ [CHR 0x6D, CHR 0xFF]]"
    by (simp add: demo_controller_def)
  show ?thesis
    using h d c get_undecodable_message [OF h, of demo_controller 2
        "(([''t0'', ''t1'', ''t2''], []), [])"]
    by blast
qed

lemma get_example:
  "SpendingController_get demo_controller ''m'' 2 (([''t0'', ''t1'', ''t2''], []), [])
       = (Inr \<lparr>pg_message = ''m'', pg_factory = demo_controller, pg_tokens = [(''t0'', ''t0m''), (''t1'', ''t1m'')]\<rparr>, (([''t2''], []), [GET_PASSES [109] 2]))"
  by (simp add: SpendingController_get_def demo_controller_def utf8_decode_def)

end
